theory Spec2Isabelle
  imports Main
begin

section \<open>Values exchanged with the platform SDK\<close>

text \<open>
  The application is a client of a hosted platform (session store and Profile
  repository) reached through an SDK.  Every SDK operation is an asynchronous
  call: its promise either rejects (the call throws at the \<open>await\<close>) or
  resolves with a reply object.  An error object of the SDK is described by a
  string.
\<close>

type_synonym fault = string

datatype 'a settled = Throws fault | Returns 'a

text \<open>A reply \<open>{ data, error }\<close>: both fields may be \<open>null\<close>.\<close>

type_synonym 'a reply = "'a option \<times> fault option"

text \<open>
  An error value inside the application is either built by the application
  itself with \<open>new Error(msg)\<close> or is an object handed over by the SDK (in
  the \<open>error\<close> field of a reply, or thrown); the two are kept apart, since
  an object of the SDK is never one the application allocated.  Thrown values
  are error objects, hence never \<open>null\<close>.
\<close>

datatype err = Error string | Sdk_error fault

text \<open>How an \<open>async\<close> computation of the application settles.\<close>

datatype 'a outcome = Rejects err | Resolves 'a

fun from_sdk :: "'a settled \<Rightarrow> 'a outcome" where
  "from_sdk (Throws f) = Rejects (Sdk_error f)"
| "from_sdk (Returns v) = Resolves v"

text \<open>The session store's user object (a Principal): \<open>id\<close> and \<open>email\<close>.\<close>

datatype auth_user = Auth_user (user_id: string) (user_email: string)

text \<open>A row of \<open>users\<close> read with \<open>select('username, role')\<close>.\<close>

datatype profile_row = Profile_row (row_username: string) (row_role: string)

text \<open>A full row of \<open>users\<close>, as returned by \<open>insert(...).select()\<close>.\<close>

datatype users_row = Users_row string string string string

text \<open>The \<open>user\<close> field of \<open>AuthResponse\<close>: \<open>{ id, email, role, username }\<close>.\<close>

datatype response_user =
  Response_user (ru_id: string) (ru_email: string) (ru_role: string) (ru_username: string)

text \<open>\<open>AuthResponse\<close>: \<open>{ user: {...} | null, error: Error | null }\<close>.\<close>

record AuthResponse =
  user :: "response_user option"
  error :: "err option"

section \<open>Effects\<close>

text \<open>
  Everything a flow does to the outside is appended to a log, in program
  order: the requests sent through the SDK (with their arguments), the timers
  it waits on, the toasts it shows and the React state setters it calls.
\<close>

datatype effect =
    Users_select_id_by_email string
  | Auth_signUp string string string string
  | Users_insert string string string string
  | Auth_admin_deleteUser string
  | Auth_signInWithPassword string string
  | Users_select_profile_by_id string
  | Auth_signOut
  | Rpc_create_doctor_profile
  | Auth_getUser
  | Auth_getSession
  | Users_select_role_by_id string
  | Doctors_select_id_by_user_id string
  | SetTimeout nat
  | Toast_error string
  | SetIsAuthenticated bool
  | SetUserRole "string option"

text \<open>
  The replies of the platform are a parameter of every flow.  Within one
  invocation each operation is requested at most once, except the three that
  sit in a retry loop; for those the reply may differ from attempt to attempt
  and is indexed by the number of the attempt, counted from 0.
\<close>

record env =
  on_users_select_id_by_email :: "string reply settled"
  on_auth_signUp :: "auth_user reply settled"
  on_users_insert :: "nat \<Rightarrow> users_row reply settled"
  on_auth_admin_deleteUser :: "fault option settled"
  on_auth_signInWithPassword :: "auth_user reply settled"
  on_users_select_profile_by_id :: "nat \<Rightarrow> profile_row reply settled"
  on_auth_signOut :: "fault option settled"
  on_rpc_create_doctor_profile :: "fault option settled"
  on_auth_getUser :: "auth_user reply settled"
  on_auth_getSession :: "auth_user option settled"
  on_users_select_role_by_id :: "nat \<Rightarrow> string reply settled"
  on_doctors_select_id_by_user_id :: "string reply settled"

text \<open>
  The state a flow runs in: the log, the session store's current-session
  pointer, and the two \<open>useState\<close> cells of a route guard (both start as
  \<open>null\<close>).
\<close>

record world =
  effects :: "effect list"
  session :: "auth_user option"
  isAuthenticated :: "bool option"
  userRole :: "string option"

text \<open>
  An asynchronous computation: run in a world, it settles (rejected with a
  thrown value, or resolved with a result) and leaves a world behind.
\<close>

type_synonym 'a prog = "world \<Rightarrow> 'a outcome \<times> world"

definition ret :: "'a \<Rightarrow> 'a prog" where
  "ret v w = (Resolves v, w)"

definition throw :: "err \<Rightarrow> 'a prog" where
  "throw e w = (Rejects e, w)"

text \<open>\<open>const x = await m; k x\<close>: a rejection of \<open>m\<close> skips \<open>k\<close>.\<close>

definition await :: "'a prog \<Rightarrow> ('a \<Rightarrow> 'b prog) \<Rightarrow> 'b prog" where
  "await m k w =
     (case m w of
        (Rejects e, w') \<Rightarrow> (Rejects e, w')
      | (Resolves v, w') \<Rightarrow> k v w')"

text \<open>\<open>try { body } catch (error) { handler }\<close>.\<close>

definition try_catch :: "'a prog \<Rightarrow> (err \<Rightarrow> 'a prog) \<Rightarrow> 'a prog" where
  "try_catch body handler w =
     (case body w of
        (Rejects e, w') \<Rightarrow> handler e w'
      | (Resolves v, w') \<Rightarrow> (Resolves v, w'))"

definition emit :: "effect \<Rightarrow> world \<Rightarrow> world" where
  "emit c w = w\<lparr>effects := effects w @ [c]\<rparr>"

text \<open>An SDK request: it is logged, and settles the way the platform says.\<close>

definition request :: "effect \<Rightarrow> 'a settled \<Rightarrow> 'a prog" where
  "request c r w = (from_sdk r, emit c w)"

text \<open>\<open>await new Promise(resolve => setTimeout(resolve, ms))\<close>.\<close>

definition sleep :: "nat \<Rightarrow> unit prog" where
  "sleep ms w = (Resolves (), emit (SetTimeout ms) w)"

text \<open>
  Modelled from the spec: the session store is an external collaborator that
  "holds the authenticated principal"; no code of it is in the repository.
  Its contract is taken to be: a password sign-in that resolves with a user
  and no error makes that user the current session; a sign-out that resolves
  with no error leaves no current session; a request that rejects or reports
  an error leaves the pointer as it was.
\<close>

definition auth_signInWithPassword :: "env \<Rightarrow> string \<Rightarrow> string \<Rightarrow> auth_user reply prog" where
  "auth_signInWithPassword env email password w =
     (from_sdk (on_auth_signInWithPassword env),
      (emit (Auth_signInWithPassword email password) w)
        \<lparr>session := (case on_auth_signInWithPassword env of
                       Returns (Some u, None) \<Rightarrow> Some u
                     | _ \<Rightarrow> session w)\<rparr>)"

definition auth_signOut :: "env \<Rightarrow> fault option prog" where
  "auth_signOut env w =
     (from_sdk (on_auth_signOut env),
      (emit Auth_signOut w)
        \<lparr>session := (case on_auth_signOut env of
                       Returns None \<Rightarrow> None
                     | _ \<Rightarrow> session w)\<rparr>)"

section \<open>authService.signUp\<close>

text \<open>
  One iteration of \<open>while (retries > 0)\<close> either leaves the loop with
  \<open>break\<close> or goes round again with new values of the loop variables.
\<close>

datatype ('a, 'b) step = Break 'a | Continue 'b

text \<open>
  The insert loop of \<open>signUp\<close>, entered with \<open>retries\<close> attempts left and
  the current \<open>profileError\<close>; it yields the final \<open>(profileError, userData)\<close>.
  The attempt made with \<open>retries\<close> left is attempt number \<open>3 - retries\<close>.
  No \<open>try\<close> surrounds the insert, so a rejected insert leaves the loop and
  the function body.
\<close>

fun signUp_insert_loop ::
  "env \<Rightarrow> string \<Rightarrow> string \<Rightarrow> string \<Rightarrow> string \<Rightarrow> nat \<Rightarrow> fault option
     \<Rightarrow> (fault option \<times> users_row option) prog" where
  "signUp_insert_loop env uid email username role 0 profileError =
     ret (profileError, None)"
| "signUp_insert_loop env uid email username role (Suc retries) profileError =
     await (request (Users_insert uid email username role)
              (on_users_insert env (3 - Suc retries)))
       (\<lambda>(data, error).
          if error = None \<and> data \<noteq> None then ret (profileError, data)
          else if retries > 0
            then await (sleep 2000)
                   (\<lambda>_. signUp_insert_loop env uid email username role retries error)
            else signUp_insert_loop env uid email username role retries error)"

definition signUp :: "env \<Rightarrow> string \<Rightarrow> string \<Rightarrow> string \<Rightarrow> string \<Rightarrow> AuthResponse prog" where
  "signUp env email password role username =
     try_catch
       (await (request (Users_select_id_by_email email) (on_users_select_id_by_email env))
          (\<lambda>(existingUser, _).
             if existingUser \<noteq> None
             then ret \<lparr>user = None, error = Some (Error ''User already exists'')\<rparr>
             else
               await (request (Auth_signUp email password role username) (on_auth_signUp env))
                 (\<lambda>(usr, signUpError).
                    case signUpError of
                      Some f \<Rightarrow> throw (Sdk_error f)
                    | None \<Rightarrow>
                       (case usr of
                          None \<Rightarrow> throw (Error ''Failed to create user'')
                        | Some u \<Rightarrow>
                            await (sleep 2000)
                              (\<lambda>_.
                                 await (signUp_insert_loop env (user_id u) email username role 3 None)
                                   (\<lambda>(profileError, userData).
                                      if userData = None
                                      then
                                        await (request (Auth_admin_deleteUser (user_id u))
                                                 (on_auth_admin_deleteUser env))
                                          (\<lambda>_. throw (case profileError of
                                                         Some f \<Rightarrow> Sdk_error f
                                                       | None \<Rightarrow> Error ''Failed to create user profile''))
                                      else
                                        ret \<lparr>user = Some (Response_user (user_id u) email role username),
                                             error = None\<rparr>))))))
       (\<lambda>e. ret \<lparr>user = None, error = Some e\<rparr>)"

section \<open>authService.signIn, signOut and getCurrentUser\<close>

text \<open>
  The Profile lookup loop, written out twice in the source (in \<open>signIn\<close>
  and in \<open>getCurrentUser\<close>; the two copies differ in a \<open>console.log\<close>
  only).  It is entered with \<open>retries\<close> attempts left and the current
  \<open>userError\<close>, and yields the final \<open>(userData, userError)\<close>.  The
  attempt made with \<open>retries\<close> left is attempt number \<open>5 - retries\<close>.
  Here every iteration has a \<open>try\<close> of its own: a rejected lookup is
  caught, recorded as \<open>userError\<close>, and counts as one attempt.  The wait
  follows every failed attempt, the last one too.
\<close>

fun profile_lookup_loop ::
  "env \<Rightarrow> string \<Rightarrow> nat \<Rightarrow> err option \<Rightarrow> (profile_row option \<times> err option) prog" where
  "profile_lookup_loop env uid 0 userError = ret (None, userError)"
| "profile_lookup_loop env uid (Suc retries) userError =
     await
       (try_catch
          (await (request (Users_select_profile_by_id uid)
                    (on_users_select_profile_by_id env (5 - Suc retries)))
             (\<lambda>(data, error).
                if error = None \<and> data \<noteq> None then ret (Break data)
                else await (sleep 2000) (\<lambda>_. ret (Continue (map_option Sdk_error error)))))
          (\<lambda>e. await (sleep 2000) (\<lambda>_. ret (Continue (Some e)))))
       (\<lambda>s. case s of
               Break data \<Rightarrow> ret (data, userError)
             | Continue e \<Rightarrow> profile_lookup_loop env uid retries e)"

definition signIn :: "env \<Rightarrow> string \<Rightarrow> string \<Rightarrow> AuthResponse prog" where
  "signIn env email password =
     try_catch
       (await (auth_signInWithPassword env email password)
          (\<lambda>(usr, signInError).
             case signInError of
               Some f \<Rightarrow> throw (Sdk_error f)
             | None \<Rightarrow>
                (case usr of
                   None \<Rightarrow> throw (Error ''User not found'')
                 | Some u \<Rightarrow>
                     await (profile_lookup_loop env (user_id u) 5 None)
                       (\<lambda>(userData, userError).
                          case userData of
                            None \<Rightarrow>
                              await (auth_signOut env)
                                (\<lambda>_. throw (case userError of
                                               Some e \<Rightarrow> e
                                             | None \<Rightarrow> Error ''Failed to load user data''))
                          | Some row \<Rightarrow>
                              await
                                (if row_role row = ''doctor''
                                 then
                                   await (request Rpc_create_doctor_profile
                                            (on_rpc_create_doctor_profile env))
                                     (\<lambda>doctorError.
                                        case doctorError of
                                          Some _ \<Rightarrow>
                                            await (auth_signOut env)
                                              (\<lambda>_. throw (Error ''Failed to verify doctor profile''))
                                        | None \<Rightarrow> ret ())
                                 else ret ())
                                (\<lambda>_. ret \<lparr>user = Some (Response_user (user_id u) (user_email u)
                                                          (row_role row) (row_username row)),
                                           error = None\<rparr>)))))
       (\<lambda>e. ret \<lparr>user = None, error = Some e\<rparr>)"


text \<open>
  \<open>getCurrentUser\<close> binds only \<open>data.user\<close> of the reply of
  \<open>getUser\<close>; the \<open>error\<close> field of that reply is never read.
\<close>

definition getCurrentUser :: "env \<Rightarrow> AuthResponse prog" where
  "getCurrentUser env =
     try_catch
       (await (request Auth_getUser (on_auth_getUser env))
          (\<lambda>(usr, _).
             case usr of
               None \<Rightarrow> ret \<lparr>user = None, error = None\<rparr>
             | Some u \<Rightarrow>
                 await (profile_lookup_loop env (user_id u) 5 None)
                   (\<lambda>(userData, userError).
                      case userData of
                        None \<Rightarrow>
                          throw (case userError of
                                   Some e \<Rightarrow> e
                                 | None \<Rightarrow> Error ''User profile not found'')
                      | Some row \<Rightarrow>
                          await
                            (if row_role row = ''doctor''
                             then
                               await (request Rpc_create_doctor_profile
                                        (on_rpc_create_doctor_profile env))
                                 (\<lambda>doctorError.
                                    case doctorError of
                                      Some _ \<Rightarrow> throw (Error ''Failed to verify doctor profile'')
                                    | None \<Rightarrow> ret ())
                             else ret ())
                            (\<lambda>_. ret \<lparr>user = Some (Response_user (user_id u) (user_email u)
                                                      (row_role row) (row_username row)),
                                       error = None\<rparr>))))
       (\<lambda>e. ret \<lparr>user = None, error = Some e\<rparr>)"

section \<open>The route guards\<close>

text \<open>
  \<open>getUserDataWithRetry(userId, maxRetries = 5, delayMs = 1000)\<close>: the
  \<open>for\<close> loop over \<open>i = 0, ..., maxRetries - 1\<close>, entered with
  \<open>left = maxRetries - i\<close> iterations to go.  It returns \<open>{ data, error }\<close>,
  where \<open>data\<close> is the row read with \<open>select('role')\<close>, that is its role.
\<close>

fun getUserDataWithRetry_loop ::
  "env \<Rightarrow> string \<Rightarrow> nat \<Rightarrow> nat \<Rightarrow> nat \<Rightarrow> (string option \<times> err option) prog" where
  "getUserDataWithRetry_loop env userId maxRetries delayMs 0 =
     ret (None, Some (Error ''Failed to get user data after retries''))"
| "getUserDataWithRetry_loop env userId maxRetries delayMs (Suc left) =
     await
       (try_catch
          (await (request (Users_select_role_by_id userId)
                    (on_users_select_role_by_id env (maxRetries - Suc left)))
             (\<lambda>(data, error).
                if error = None \<and> data \<noteq> None then ret (Break (data, None))
                else if maxRetries - Suc left < maxRetries - 1
                  then await (sleep delayMs) (\<lambda>_. ret (Continue ()))
                  else ret (Continue ())))
          (\<lambda>e. if maxRetries - Suc left = maxRetries - 1
                then ret (Break (None, Some e))
                else await (sleep delayMs) (\<lambda>_. ret (Continue ()))))
       (\<lambda>s. case s of
               Break r \<Rightarrow> ret r
             | Continue _ \<Rightarrow> getUserDataWithRetry_loop env userId maxRetries delayMs left)"

definition getUserDataWithRetry ::
  "env \<Rightarrow> string \<Rightarrow> nat \<Rightarrow> nat \<Rightarrow> (string option \<times> err option) prog" where
  "getUserDataWithRetry env userId maxRetries delayMs =
     getUserDataWithRetry_loop env userId maxRetries delayMs maxRetries"

text \<open>
  The guards are React components.  Of each, the model has \<open>checkAuth\<close>
  (the effect run when the component mounts) as a computation on the two
  state cells, and the render as a function of the two cells.  The listener
  that \<open>ProtectedRoute\<close> registers with \<open>onAuthStateChange\<close> repeats the
  body of \<open>checkAuth\<close> from the lookup on for a \<open>SIGNED_IN\<close> event and
  sets both cells as a denial does for \<open>SIGNED_OUT\<close>; it is not modelled.
  Calls to \<open>console\<close> are left out everywhere.
\<close>

text \<open>The setters of the two \<open>useState\<close> cells, and \<open>toast.error\<close>.\<close>

definition setIsAuthenticated :: "bool \<Rightarrow> unit prog" where
  "setIsAuthenticated b w = (Resolves (), (emit (SetIsAuthenticated b) w)\<lparr>isAuthenticated := Some b\<rparr>)"

definition setUserRole :: "string option \<Rightarrow> unit prog" where
  "setUserRole r w = (Resolves (), (emit (SetUserRole r) w)\<lparr>userRole := r\<rparr>)"

definition toast_error :: "string \<Rightarrow> unit prog" where
  "toast_error msg w = (Resolves (), emit (Toast_error msg) w)"

text \<open>\<open>a; b\<close> for two statements.\<close>

definition andThen :: "unit prog \<Rightarrow> 'a prog \<Rightarrow> 'a prog" where
  "andThen m n = await m (\<lambda>_. n)"

text \<open>
  \<open>checkAuth\<close> of \<open>ProtectedRoute\<close>.  \<open>Break\<close> stands for the early
  \<open>return\<close> of the doctor branch.  The tests \<open>error || !userData\<close> and
  \<open>doctorError || !doctorData\<close> are written as a case on the pair: the
  first pattern is the one case in which the test is false.
\<close>

definition ProtectedRoute_checkAuth :: "env \<Rightarrow> string list \<Rightarrow> unit prog" where
  "ProtectedRoute_checkAuth env allowedRoles =
     try_catch
       (await (request Auth_getSession (on_auth_getSession env))
          (\<lambda>session_user.
             case session_user of
               None \<Rightarrow> andThen (setIsAuthenticated False) (setUserRole None)
             | Some u \<Rightarrow>
                 await (getUserDataWithRetry env (user_id u) 5 1000)
                   (\<lambda>(userData, error).
                      case (error, userData) of
                        (None, Some r) \<Rightarrow>
                          await
                            (if r = ''doctor''
                             then
                               await (request (Doctors_select_id_by_user_id (user_id u))
                                        (on_doctors_select_id_by_user_id env))
                                 (\<lambda>(doctorData, doctorError).
                                    case (doctorError, doctorData) of
                                      (None, Some _) \<Rightarrow> ret (Continue ())
                                    | _ \<Rightarrow>
                                      await (request Rpc_create_doctor_profile
                                               (on_rpc_create_doctor_profile env))
                                        (\<lambda>createError.
                                           case createError of
                                             Some _ \<Rightarrow>
                                               await (auth_signOut env)
                                                 (\<lambda>_. andThen (setIsAuthenticated False)
                                                   (andThen (setUserRole None)
                                                   (andThen (toast_error
                                                      ''Failed to create doctor profile. Please contact your administrator.'')
                                                   (ret (Break ())))))
                                           | None \<Rightarrow> ret (Continue ())))
                             else ret (Continue ()))
                            (\<lambda>s. case s of
                                    Break _ \<Rightarrow> ret ()
                                  | Continue _ \<Rightarrow>
                                      andThen (setIsAuthenticated True)
                                        (andThen (setUserRole (Some r))
                                          (if r \<notin> set allowedRoles
                                           then
                                             andThen (toast_error
                                                 (''Access denied. Your role ('' @ r @
                                                  '') does not have permission to access this area.''))
                                               (await (auth_signOut env)
                                                  (\<lambda>_. andThen (setIsAuthenticated False)
                                                          (setUserRole None)))
                                           else ret ())))
                      | _ \<Rightarrow>
                          await (auth_signOut env)
                            (\<lambda>_. andThen (setIsAuthenticated False)
                              (andThen (setUserRole None)
                                (toast_error
                                   ''Failed to load user data. Please try logging in again.''))))))
       (\<lambda>e. andThen (setIsAuthenticated False)
              (andThen (setUserRole None)
                (toast_error ''Authentication error. Please try logging in again.'')))"

text \<open>What a guard renders: the loading placeholder, a redirect, or its children.\<close>

datatype view = Loading | Navigate string | Children

fun ProtectedRoute_render :: "string list \<Rightarrow> bool option \<Rightarrow> string option \<Rightarrow> view" where
  "ProtectedRoute_render allowedRoles None r = Loading"
| "ProtectedRoute_render allowedRoles (Some a) None = Loading"
| "ProtectedRoute_render allowedRoles (Some a) (Some r) =
     (if \<not> a \<or> r \<notin> set allowedRoles then Navigate ''/login'' else Children)"




section \<open>Vocabulary of the properties\<close>

text \<open>
  A request of a retry loop \<open>returns no row\<close> when it resolves with a reply
  that fails the loops' test \<open>!error && data\<close>.  In the loop of \<open>signUp\<close>
  that is the only way for an attempt to fail and be retried; in the loops
  that have a \<open>try\<close> of their own, an attempt also fails when the request
  throws.
\<close>

fun returns_no_row :: "'a reply settled \<Rightarrow> bool" where
  "returns_no_row (Returns (d, e)) = (d = None \<or> e \<noteq> None)"
| "returns_no_row (Throws f) = False"

fun attempt_fails :: "'a reply settled \<Rightarrow> bool" where
  "attempt_fails (Returns (d, e)) = (d = None \<or> e \<noteq> None)"
| "attempt_fails (Throws f) = True"

text \<open>The error an attempt leaves in the loop's error variable.\<close>

fun reported_error :: "'a reply settled \<Rightarrow> err option" where
  "reported_error (Returns (d, e)) = map_option Sdk_error e"
| "reported_error (Throws f) = Some (Sdk_error f)"

text \<open>Requests of a given kind in a log.\<close>

fun is_insert :: "effect \<Rightarrow> bool" where
  "is_insert (Users_insert i e u r) = True"
| "is_insert _ = False"

text \<open>The trace of \<open>n\<close> failed attempts of the Profile lookup loop.\<close>

fun lookups :: "string \<Rightarrow> nat \<Rightarrow> effect list" where
  "lookups uid n = concat (replicate n [Users_select_profile_by_id uid, SetTimeout 2000])"

text \<open>The log only grows.\<close>

definition grows :: "'a prog \<Rightarrow> bool" where
  "grows m \<longleftrightarrow> (\<forall>w. \<exists>xs. effects (snd (m w)) = effects w @ xs)"

text \<open>
  What a guard shows.  React renders a component from its state cells, so
  while \<open>checkAuth\<close> is suspended at an \<open>await\<close> the guard shows the
  render of the cells as set so far.  Replaying a log from given cells,
  \<open>states\<close> lists the cells after every prefix of the log (first the
  given ones, last the final ones), and \<open>pending_on q\<close> lists the cells
  held each time the request \<open>q\<close> is issued, which are the cells held
  while it is awaited.  A freshly mounted guard has both cells \<open>null\<close>.
\<close>

type_synonym cells = "bool option \<times> string option"

fun set_cell :: "effect \<Rightarrow> cells \<Rightarrow> cells" where
  "set_cell (SetIsAuthenticated b) (a, r) = (Some b, r)"
| "set_cell (SetUserRole x) (a, r) = (a, x)"
| "set_cell e c = c"

fun states :: "cells \<Rightarrow> effect list \<Rightarrow> cells list" where
  "states c [] = [c]"
| "states c (e # es) = c # states (set_cell e c) es"

fun pending_on :: "effect \<Rightarrow> cells \<Rightarrow> effect list \<Rightarrow> cells list" where
  "pending_on q c [] = []"
| "pending_on q c (e # es) = (if e = q then [c] else []) @ pending_on q (set_cell e c) es"

text \<open>The effects that leave the cells alone.\<close>

fun quiet :: "effect \<Rightarrow> bool" where
  "quiet (SetIsAuthenticated b) = False"
| "quiet (SetUserRole x) = False"
| "quiet e = True"

text \<open>
  The doctor check of \<open>ProtectedRoute\<close> passes: the doctor record is
  found, or it is not and \<open>create_doctor_profile\<close> reports no error.
\<close>

definition doctor_record_ensured :: "env \<Rightarrow> bool" where
  "doctor_record_ensured env =
     (case on_doctors_select_id_by_user_id env of
        Returns (Some d, None) \<Rightarrow> True
      | Returns _ \<Rightarrow> on_rpc_create_doctor_profile env = Returns None
      | Throws f \<Rightarrow> False)"

text \<open>
  A platform on which every request succeeds at the first attempt, for the
  Principal \<open>alice\<close> whose Profile has role \<open>admin\<close>; the examples vary it
  field by field.  \<open>blank\<close> is a freshly loaded page with no session.
\<close>

definition alice :: auth_user where
  "alice = Auth_user ''u1'' ''a@x.com''"

definition platform :: env where
  "platform =
     \<lparr>on_users_select_id_by_email = Returns (None, None),
      on_auth_signUp = Returns (Some alice, None),
      on_users_insert = (\<lambda>n. Returns (Some (Users_row ''u1'' ''a@x.com'' ''alice'' ''admin''), None)),
      on_auth_admin_deleteUser = Returns None,
      on_auth_signInWithPassword = Returns (Some alice, None),
      on_users_select_profile_by_id = (\<lambda>n. Returns (Some (Profile_row ''alice'' ''admin''), None)),
      on_auth_signOut = Returns None,
      on_rpc_create_doctor_profile = Returns None,
      on_auth_getUser = Returns (Some alice, None),
      on_auth_getSession = Returns (Some alice),
      on_users_select_role_by_id = (\<lambda>n. Returns (Some ''admin'', None)),
      on_doctors_select_id_by_user_id = Returns (Some ''d1'', None)\<rparr>"

definition blank :: world where
  "blank = \<lparr>effects = [], session = None, isAuthenticated = None, userRole = None\<rparr>"

text \<open>Variations of the platform used in the examples.\<close>

definition platform_fk :: env where
  "platform_fk = platform\<lparr>on_users_insert :=
      (\<lambda>n. if n < 2 then Returns (None, Some ''foreign key violation'') else Returns (None, None))\<rparr>"

definition platform_dup :: env where
  "platform_dup = platform\<lparr>on_users_insert := (\<lambda>n. Returns (None, Some ''duplicate key''))\<rparr>"

definition platform_lag :: env where
  "platform_lag = platform\<lparr>on_users_insert :=
      (\<lambda>n. if n < 1 then Returns (None, Some ''foreign key violation'')
           else Returns (Some (Users_row ''u1'' ''a@x.com'' ''alice'' ''admin''), None))\<rparr>"

definition platform_denied :: env where
  "platform_denied = platform\<lparr>on_users_select_id_by_email := Returns (None, Some ''permission denied'')\<rparr>"

text \<open>A page on which \<open>alice\<close> holds the current session.\<close>

definition signed_in :: world where
  "signed_in = blank\<lparr>session := Some alice\<rparr>"

definition platform_no_profile :: env where
  "platform_no_profile = platform\<lparr>on_users_select_profile_by_id := (\<lambda>n. Returns (None, None))\<rparr>"

definition platform_doctor :: env where
  "platform_doctor = platform
     \<lparr>on_users_select_profile_by_id :=
        (\<lambda>n. if n < 1 then Throws ''network down''
             else Returns (Some (Profile_row ''alice'' ''doctor''), None)),
      on_rpc_create_doctor_profile := Returns (Some ''permission denied'')\<rparr>"

definition platform_registration :: env where
  "platform_registration =
     platform\<lparr>on_users_select_role_by_id := (\<lambda>n. Returns (Some ''registration'', None))\<rparr>"

definition platform_getUser_fails :: env where
  "platform_getUser_fails = platform\<lparr>on_auth_getUser := Returns (None, Some ''network error'')\<rparr>"

definition platform_doctor_role :: env where
  "platform_doctor_role =
     platform\<lparr>on_users_select_role_by_id := (\<lambda>n. Returns (Some ''doctor'', None))\<rparr>"

section \<open>Reasoning about computations\<close>

lemmas prog_defs = await_def try_catch_def request_def ret_def throw_def sleep_def emit_def

lemma returns_no_rowE:
  assumes "returns_no_row r"
  obtains d e where "r = Returns (d, e)" "d = None \<or> e \<noteq> None"
  using assms by (cases r rule: returns_no_row.cases) auto

text \<open>A request that returns hands its reply to the continuation.\<close>

lemma await_request: "await (request c (Returns v)) k w = k v (emit c w)"
  by (simp add: prog_defs)

text \<open>Every primitive and every combinator only appends to the log.\<close>

lemma growsD: "grows m \<Longrightarrow> \<exists>xs. effects (snd (m w)) = effects w @ xs"
  by (simp add: grows_def)

lemma grows_ret: "grows (ret v)"
  by (simp add: grows_def ret_def)

lemma grows_throw: "grows (throw e)"
  by (simp add: grows_def throw_def)

lemma grows_request: "grows (request c r)"
  by (simp add: grows_def request_def emit_def)

lemma grows_sleep: "grows (sleep ms)"
  by (simp add: grows_def sleep_def emit_def)

lemma grows_await:
  assumes "grows m" and "\<And>v. grows (k v)"
  shows "grows (await m k)"
  unfolding grows_def
proof
  fix w
  obtain r w1 where mw: "m w = (r, w1)" by (cases "m w")
  from growsD[OF assms(1), of w] mw obtain xs where xs: "effects w1 = effects w @ xs" by auto
  show "\<exists>ys. effects (snd (await m k w)) = effects w @ ys"
  proof (cases r)
    case (Rejects e)
    with mw xs show ?thesis by (simp add: await_def)
  next
    case (Resolves v)
    from growsD[OF assms(2), of v w1] obtain ys where "effects (snd (k v w1)) = effects w1 @ ys" by auto
    with Resolves mw xs show ?thesis by (simp add: await_def)
  qed
qed

lemma grows_try_catch:
  assumes "grows m" and "\<And>e. grows (h e)"
  shows "grows (try_catch m h)"
  unfolding grows_def
proof
  fix w
  obtain r w1 where mw: "m w = (r, w1)" by (cases "m w")
  from growsD[OF assms(1), of w] mw obtain xs where xs: "effects w1 = effects w @ xs" by auto
  show "\<exists>ys. effects (snd (try_catch m h w)) = effects w @ ys"
  proof (cases r)
    case (Rejects e)
    from growsD[OF assms(2), of e w1] obtain ys where "effects (snd (h e w1)) = effects w1 @ ys" by auto
    with Rejects mw xs show ?thesis by (simp add: try_catch_def)
  next
    case (Resolves v)
    with mw xs show ?thesis by (simp add: try_catch_def)
  qed
qed

lemmas grows_intros = grows_ret grows_throw grows_request grows_sleep grows_await grows_try_catch

lemma try_catch_await_request:
  "try_catch (await (request c (Returns v)) k) h w = try_catch (k v) h (emit c w)"
  by (simp add: prog_defs)

lemma effects_after_request:
  assumes "\<And>v. grows (k v)" and "\<And>e. grows (h e)"
  shows "\<exists>rest. effects (snd (try_catch (await (request c r) k) h w)) = effects w @ c # rest"
proof (cases r)
  case (Throws f)
  from growsD[OF assms(2), of "Sdk_error f" "emit c w"]
  obtain ys where "effects (snd (h (Sdk_error f) (emit c w))) = effects (emit c w) @ ys" by auto
  with Throws show ?thesis by (simp add: prog_defs)
next
  case (Returns v)
  have "grows (try_catch (k v) h)" using assms by (rule grows_try_catch)
  from growsD[OF this, of "emit c w"]
  obtain ys where "effects (snd (try_catch (k v) h (emit c w))) = effects (emit c w) @ ys" by auto
  with Returns show ?thesis by (simp add: try_catch_await_request) (simp add: emit_def)
qed

text \<open>What the SDK throws is never an error the application built.\<close>

lemma from_sdk_not_Error: "from_sdk r \<noteq> Rejects (Error m)"
  by (cases r) auto

lemma resolves_or_rejects:
  obtains r w' where "m w = (Resolves r, w')" | e w' where "m w = (Rejects e, w')"
  by (cases "m w"; cases "fst (m w)") auto

lemmas guard_defs = setIsAuthenticated_def setUserRole_def toast_error_def andThen_def
  auth_signOut_def

section \<open>Properties of signUp\<close>

text \<open>
  Claim C4.  When the pre-check finds a Profile with the given email, signUp
  returns the failure \<open>Error('User already exists')\<close> with \<open>user = null\<close>
  and does nothing else: the pre-check is the only effect of the invocation,
  so no Principal is created, no insert is attempted and no delete is issued.
\<close>

theorem signUp_existing_profile:
  assumes "on_users_select_id_by_email env = Returns (Some row, e)"
  shows "signUp env email password role username w =
           (Resolves \<lparr>user = None, error = Some (Error ''User already exists'')\<rparr>,
            w\<lparr>effects := effects w @ [Users_select_id_by_email email]\<rparr>)"
  using assms
  by (simp add: signUp_def prog_defs)

theorem signUp_existing_profile_witness:
  "on_users_select_id_by_email (platform\<lparr>on_users_select_id_by_email := Returns (Some ''u0'', None)\<rparr>)
     = Returns (Some ''u0'', None) \<and>
   signUp (platform\<lparr>on_users_select_id_by_email := Returns (Some ''u0'', None)\<rparr>)
      ''a@x.com'' ''secret1'' ''admin'' ''alice'' blank =
     (Resolves \<lparr>user = None, error = Some (Error ''User already exists'')\<rparr>,
      blank\<lparr>effects := [Users_select_id_by_email ''a@x.com'']\<rparr>)"
  using signUp_existing_profile
          [of "platform\<lparr>on_users_select_id_by_email := Returns (Some ''u0'', None)\<rparr>"
              "''u0''" None "''a@x.com''" "''secret1''" "''admin''" "''alice''" blank]
  by (simp add: blank_def)

text \<open>Three inserts in a row that return no row: the loop runs dry.\<close>

lemma signUp_insert_loop_fails3:
  assumes "returns_no_row (on_users_insert env 0)"
    and "returns_no_row (on_users_insert env 1)"
    and "returns_no_row (on_users_insert env 2)"
  shows "\<exists>pe. signUp_insert_loop env uid email username role 3 None w =
           (Resolves (pe, None),
            w\<lparr>effects := effects w @
                 [Users_insert uid email username role, SetTimeout 2000,
                  Users_insert uid email username role, SetTimeout 2000,
                  Users_insert uid email username role]\<rparr>) \<and>
           reported_error (on_users_insert env 2) = map_option Sdk_error pe"
proof -
  from assms(1) obtain d0 e0 where r0: "on_users_insert env 0 = Returns (d0, e0)" "d0 = None \<or> e0 \<noteq> None"
    by (rule returns_no_rowE)
  from assms(2) obtain d1 e1 where r1: "on_users_insert env 1 = Returns (d1, e1)" "d1 = None \<or> e1 \<noteq> None"
    by (rule returns_no_rowE)
  from assms(3) obtain d2 e2 where r2: "on_users_insert env 2 = Returns (d2, e2)" "d2 = None \<or> e2 \<noteq> None"
    by (rule returns_no_rowE)
  have three: "(3::nat) = Suc (Suc (Suc 0))" by simp
  show ?thesis
    unfolding three using r0 r1 r2
    by (auto simp: prog_defs numeral_2_eq_2)
qed

text \<open>
  Claim C1, as amended.  When the Principal is created and each of the three
  inserts returns no row, signUp issues the administrative delete of that
  Principal (its last effect, after exactly three inserts) and returns a
  failure with \<open>user = null\<close>.  The error of the failure is the one the
  third insert reported; when the third insert reported none it is
  \<open>Error('Failed to create user profile')\<close>; and when the delete request
  itself throws it is the thrown value.
\<close>

theorem signUp_profile_never_inserted:
  assumes "on_users_select_id_by_email env = Returns (None, pe)"
    and "on_auth_signUp env = Returns (Some u, None)"
    and "returns_no_row (on_users_insert env 0)"
    and "returns_no_row (on_users_insert env 1)"
    and "returns_no_row (on_users_insert env 2)"
  shows "signUp env email password role username w =
           (Resolves \<lparr>user = None,
                      error = Some (case on_auth_admin_deleteUser env of
                                      Throws f \<Rightarrow> Sdk_error f
                                    | Returns _ \<Rightarrow>
                                        (case reported_error (on_users_insert env 2) of
                                           Some e \<Rightarrow> e
                                         | None \<Rightarrow> Error ''Failed to create user profile''))\<rparr>,
            w\<lparr>effects := effects w @
                 [Users_select_id_by_email email,
                  Auth_signUp email password role username,
                  SetTimeout 2000,
                  Users_insert (user_id u) email username role, SetTimeout 2000,
                  Users_insert (user_id u) email username role, SetTimeout 2000,
                  Users_insert (user_id u) email username role,
                  Auth_admin_deleteUser (user_id u)]\<rparr>)"
proof -
  obtain le where loop:
    "signUp_insert_loop env (user_id u) email username role 3 None
       (w\<lparr>effects := effects w @ [Users_select_id_by_email email,
             Auth_signUp email password role username, SetTimeout 2000]\<rparr>) =
       (Resolves (le, None),
        w\<lparr>effects := effects w @ [Users_select_id_by_email email,
             Auth_signUp email password role username, SetTimeout 2000,
             Users_insert (user_id u) email username role, SetTimeout 2000,
             Users_insert (user_id u) email username role, SetTimeout 2000,
             Users_insert (user_id u) email username role]\<rparr>)"
    and le: "reported_error (on_users_insert env 2) = map_option Sdk_error le"
    using signUp_insert_loop_fails3[OF assms(3-5), of "user_id u" email username role
       "w\<lparr>effects := effects w @ [Users_select_id_by_email email,
             Auth_signUp email password role username, SetTimeout 2000]\<rparr>"]
    by auto
  show ?thesis
    using assms(1,2) loop le
    by (cases "on_auth_admin_deleteUser env"; cases le)
       (auto simp: signUp_def prog_defs)
qed

theorem signUp_profile_never_inserted_witness:
  "on_users_select_id_by_email platform_dup = Returns (None, None) \<and>
   on_auth_signUp platform_dup = Returns (Some alice, None) \<and>
   returns_no_row (on_users_insert platform_dup 0) \<and>
   returns_no_row (on_users_insert platform_dup 1) \<and>
   returns_no_row (on_users_insert platform_dup 2) \<and>
   signUp platform_dup ''a@x.com'' ''secret1'' ''admin'' ''alice'' blank =
     (Resolves \<lparr>user = None, error = Some (Sdk_error ''duplicate key'')\<rparr>,
      blank\<lparr>effects :=
        [Users_select_id_by_email ''a@x.com'',
         Auth_signUp ''a@x.com'' ''secret1'' ''admin'' ''alice'',
         SetTimeout 2000,
         Users_insert ''u1'' ''a@x.com'' ''alice'' ''admin'', SetTimeout 2000,
         Users_insert ''u1'' ''a@x.com'' ''alice'' ''admin'', SetTimeout 2000,
         Users_insert ''u1'' ''a@x.com'' ''alice'' ''admin'',
         Auth_admin_deleteUser ''u1'']\<rparr>)"
  using signUp_profile_never_inserted
          [of platform_dup None alice "''a@x.com''" "''secret1''" "''admin''" "''alice''" blank]
  by (simp add: platform_dup_def platform_def blank_def alice_def)

text \<open>
  The claim as stated fails: two inserts report an error and the third returns
  neither a row nor an error; the failure then carries the fallback error, not
  the error observed last.
\<close>

theorem signUp_last_insert_error_counterexample:
  "on_users_insert platform_fk 0 = Returns (None, Some ''foreign key violation'') \<and>
   on_users_insert platform_fk 1 = Returns (None, Some ''foreign key violation'') \<and>
   on_users_insert platform_fk 2 = Returns (None, None) \<and>
   fst (signUp platform_fk ''a@x.com'' ''secret1'' ''admin'' ''alice'' blank) =
     Resolves \<lparr>user = None, error = Some (Error ''Failed to create user profile'')\<rparr>"
  by (simp add: platform_fk_def platform_def blank_def alice_def signUp_def prog_defs numeral_3_eq_3)

text \<open>The insert that succeeds is the last request of the loop.\<close>

lemma signUp_insert_loop_succeeds:
  assumes "k \<in> {1, 2, 3}"
    and "\<forall>j<k - 1. returns_no_row (on_users_insert env j)"
    and "on_users_insert env (k - 1) = Returns (Some row, None)"
  shows "\<exists>pe. signUp_insert_loop env uid email username role 3 None w =
           (Resolves (pe, Some row),
            w\<lparr>effects := effects w
                 @ concat (replicate (k - 1) [Users_insert uid email username role, SetTimeout 2000])
                 @ [Users_insert uid email username role]\<rparr>)"
proof -
  have three: "(3::nat) = Suc (Suc (Suc 0))" by simp
  from assms(1) consider "k = 1" | "k = 2" | "k = 3" by auto
  then show ?thesis
  proof cases
    case 1
    with assms(3) show ?thesis
      unfolding three by (simp add: prog_defs)
  next
    case 2
    with assms(2) have "returns_no_row (on_users_insert env 0)" by simp
    then obtain d0 e0 where "on_users_insert env 0 = Returns (d0, e0)" "d0 = None \<or> e0 \<noteq> None"
      by (rule returns_no_rowE)
    with 2 assms(3) show ?thesis
      unfolding three by (auto simp: prog_defs)
  next
    case 3
    with assms(2) have "returns_no_row (on_users_insert env 0)" "returns_no_row (on_users_insert env 1)"
      by simp_all
    then obtain d0 e0 d1 e1 where
      "on_users_insert env 0 = Returns (d0, e0)" "d0 = None \<or> e0 \<noteq> None"
      "on_users_insert env 1 = Returns (d1, e1)" "d1 = None \<or> e1 \<noteq> None"
      by (metis returns_no_rowE)
    with 3 assms(3) show ?thesis
      unfolding three by (auto simp: prog_defs numeral_2_eq_2)
  qed
qed

lemma count_inserts_in_run:
  "length (filter is_insert
     (xs @ [Users_select_id_by_email email, Auth_signUp email password role username, SetTimeout 2000]
         @ concat (replicate n [Users_insert uid email username role, SetTimeout 2000])
         @ [Users_insert uid email username role])) =
   length (filter is_insert xs) + Suc n"
  by (induction n) simp_all

text \<open>
  Claim C5.  When the Principal is created and the insert succeeds on attempt
  \<open>k\<close> of 1, 2, 3 (the attempts before it returning no row), signUp makes
  exactly \<open>k\<close> inserts, the successful one being its last effect, and returns
  \<open>{ user: { id, email, role, username }, error: null }\<close> with the id of
  the created Principal and the email, role and username it was given.
\<close>

theorem signUp_succeeds_on_attempt_k:
  assumes "on_users_select_id_by_email env = Returns (None, pe)"
    and "on_auth_signUp env = Returns (Some u, None)"
    and "k \<in> {1, 2, 3}"
    and "\<forall>j<k - 1. returns_no_row (on_users_insert env j)"
    and "on_users_insert env (k - 1) = Returns (Some row, None)"
  shows "signUp env email password role username w =
           (Resolves \<lparr>user = Some (Response_user (user_id u) email role username), error = None\<rparr>,
            w\<lparr>effects := effects w
                 @ [Users_select_id_by_email email, Auth_signUp email password role username,
                    SetTimeout 2000]
                 @ concat (replicate (k - 1)
                     [Users_insert (user_id u) email username role, SetTimeout 2000])
                 @ [Users_insert (user_id u) email username role]\<rparr>) \<and>
         length (filter is_insert (effects (snd (signUp env email password role username w)))) =
           length (filter is_insert (effects w)) + k"
proof -
  let ?w1 = "w\<lparr>effects := effects w @ [Users_select_id_by_email email,
                 Auth_signUp email password role username, SetTimeout 2000]\<rparr>"
  obtain le where loop:
    "signUp_insert_loop env (user_id u) email username role 3 None ?w1 =
       (Resolves (le, Some row),
        ?w1\<lparr>effects := effects ?w1
             @ concat (replicate (k - 1) [Users_insert (user_id u) email username role, SetTimeout 2000])
             @ [Users_insert (user_id u) email username role]\<rparr>)"
    using signUp_insert_loop_succeeds[OF assms(3-5)] by blast
  have run: "signUp env email password role username w =
           (Resolves \<lparr>user = Some (Response_user (user_id u) email role username), error = None\<rparr>,
            w\<lparr>effects := effects w
                 @ [Users_select_id_by_email email, Auth_signUp email password role username,
                    SetTimeout 2000]
                 @ concat (replicate (k - 1)
                     [Users_insert (user_id u) email username role, SetTimeout 2000])
                 @ [Users_insert (user_id u) email username role]\<rparr>)"
    using assms(1,2) loop by (simp add: signUp_def prog_defs)
  from assms(3) have k: "Suc (k - 1) = k" by auto
  show ?thesis
    unfolding run using count_inserts_in_run[of "effects w" email password role username "k - 1" "user_id u"] k
    by simp
qed

theorem signUp_succeeds_on_attempt_k_witness:
  "on_users_select_id_by_email platform_lag = Returns (None, None) \<and>
   on_auth_signUp platform_lag = Returns (Some alice, None) \<and>
   (2::nat) \<in> {1, 2, 3} \<and>
   returns_no_row (on_users_insert platform_lag 0) \<and>
   on_users_insert platform_lag 1 = Returns (Some (Users_row ''u1'' ''a@x.com'' ''alice'' ''admin''), None) \<and>
   signUp platform_lag ''a@x.com'' ''secret1'' ''admin'' ''alice'' blank =
     (Resolves \<lparr>user = Some (Response_user ''u1'' ''a@x.com'' ''admin'' ''alice''), error = None\<rparr>,
      blank\<lparr>effects :=
        [Users_select_id_by_email ''a@x.com'',
         Auth_signUp ''a@x.com'' ''secret1'' ''admin'' ''alice'',
         SetTimeout 2000,
         Users_insert ''u1'' ''a@x.com'' ''alice'' ''admin'', SetTimeout 2000,
         Users_insert ''u1'' ''a@x.com'' ''alice'' ''admin'']\<rparr>) \<and>
   length (filter is_insert
     (effects (snd (signUp platform_lag ''a@x.com'' ''secret1'' ''admin'' ''alice'' blank)))) = 2"
  using signUp_succeeds_on_attempt_k
          [of platform_lag None alice 2 "Users_row ''u1'' ''a@x.com'' ''alice'' ''admin''"
              "''a@x.com''" "''secret1''" "''admin''" "''alice''" blank]
  by (simp add: platform_lag_def platform_def blank_def alice_def)

text \<open>The insert loop reads nothing but the replies to the inserts, and throws only what the SDK threw.\<close>

lemma signUp_insert_loop_ignores_precheck:
  "signUp_insert_loop (env\<lparr>on_users_select_id_by_email := x\<rparr>) uid email username role n pe =
   signUp_insert_loop env uid email username role n pe"
  by (induction n arbitrary: pe) (simp_all cong: if_cong)

lemma grows_signUp_insert_loop: "grows (signUp_insert_loop env uid email username role n pe)"
  by (induction n arbitrary: pe)
     (auto intro!: grows_intros split: prod.splits)

lemma signUp_insert_loop_Rejects:
  "signUp_insert_loop env uid email username role n pe w = (Rejects e, w') \<Longrightarrow> \<exists>f. e = Sdk_error f"
proof (induction n arbitrary: pe w)
  case 0
  then show ?case by (simp add: ret_def)
next
  case (Suc n)
  then show ?case
    by (cases "on_users_insert env (2 - n)")
       (auto simp: prog_defs split: if_splits)
qed

text \<open>
  Claim C9.  The pre-check is best effort.  When its query returns an error
  and no row, signUp behaves exactly as it does when the query returns
  neither (same result, same effects): the error is dropped, and the request
  that creates the Principal follows the pre-check.  And whatever the platform
  replies, the failure \<open>Error('User already exists')\<close> comes back only
  when the pre-check query returned a row.
\<close>

theorem signUp_precheck_error_discarded:
  assumes "on_users_select_id_by_email env = Returns (None, Some f)"
  shows "signUp env email password role username w =
           signUp (env\<lparr>on_users_select_id_by_email := Returns (None, None)\<rparr>)
             email password role username w \<and>
         (\<exists>rest. effects (snd (signUp env email password role username w)) =
            effects w @ Users_select_id_by_email email
                      # Auth_signUp email password role username # rest) \<and>
         (\<forall>env' w'. fst (signUp env' email password role username w') =
               Resolves \<lparr>user = None, error = Some (Error ''User already exists'')\<rparr> \<longrightarrow>
             (\<exists>row e. on_users_select_id_by_email env' = Returns (Some row, e)))"
proof (intro conjI allI impI)
  show "signUp env email password role username w =
           signUp (env\<lparr>on_users_select_id_by_email := Returns (None, None)\<rparr>)
             email password role username w"
    using assms
    by (simp add: signUp_def try_catch_def await_request signUp_insert_loop_ignores_precheck
             cong: if_cong option.case_cong prod.case_cong)
next
  show "\<exists>rest. effects (snd (signUp env email password role username w)) =
            effects w @ Users_select_id_by_email email
                      # Auth_signUp email password role username # rest"
  proof -
    have "\<exists>rest. effects (snd (signUp env email password role username w)) =
            effects (emit (Users_select_id_by_email email) w)
              @ Auth_signUp email password role username # rest"
      unfolding signUp_def using assms
      apply (simp add: try_catch_await_request)
      apply (rule effects_after_request)
       apply (auto intro!: grows_intros grows_signUp_insert_loop split: prod.splits option.splits)
      done
    then show ?thesis by (simp add: emit_def)
  qed
next
  fix env' w'
  assume "fst (signUp env' email password role username w') =
               Resolves \<lparr>user = None, error = Some (Error ''User already exists'')\<rparr>"
  then show "\<exists>row e. on_users_select_id_by_email env' = Returns (Some row, e)"
    by (cases "on_users_select_id_by_email env'")
       (auto simp: signUp_def prog_defs from_sdk_not_Error
             dest: signUp_insert_loop_Rejects
             split: option.splits prod.splits outcome.splits if_splits)
qed

theorem signUp_precheck_error_discarded_witness:
  "on_users_select_id_by_email platform_denied = Returns (None, Some ''permission denied'') \<and>
   signUp platform_denied ''a@x.com'' ''secret1'' ''admin'' ''alice'' blank =
     signUp platform ''a@x.com'' ''secret1'' ''admin'' ''alice'' blank \<and>
   signUp platform_denied ''a@x.com'' ''secret1'' ''admin'' ''alice'' blank =
     (Resolves \<lparr>user = Some (Response_user ''u1'' ''a@x.com'' ''admin'' ''alice''), error = None\<rparr>,
      blank\<lparr>effects :=
        [Users_select_id_by_email ''a@x.com'',
         Auth_signUp ''a@x.com'' ''secret1'' ''admin'' ''alice'',
         SetTimeout 2000,
         Users_insert ''u1'' ''a@x.com'' ''alice'' ''admin'']\<rparr>)"
proof -
  have same: "platform_denied\<lparr>on_users_select_id_by_email := Returns (None, None)\<rparr> = platform"
    by (simp add: platform_denied_def platform_def)
  have run: "signUp platform ''a@x.com'' ''secret1'' ''admin'' ''alice'' blank =
     (Resolves \<lparr>user = Some (Response_user ''u1'' ''a@x.com'' ''admin'' ''alice''), error = None\<rparr>,
      blank\<lparr>effects :=
        [Users_select_id_by_email ''a@x.com'',
         Auth_signUp ''a@x.com'' ''secret1'' ''admin'' ''alice'',
         SetTimeout 2000,
         Users_insert ''u1'' ''a@x.com'' ''alice'' ''admin'']\<rparr>)"
    by (simp add: platform_def blank_def alice_def signUp_def prog_defs numeral_3_eq_3)
  have hyp: "on_users_select_id_by_email platform_denied = Returns (None, Some ''permission denied'')"
    by (simp add: platform_denied_def)
  from signUp_precheck_error_discarded[OF hyp, of "''a@x.com''" "''secret1''" "''admin''" "''alice''" blank]
  show ?thesis using hyp run by (simp add: same)
qed

section \<open>The flows of authService never throw\<close>






lemma getCurrentUser_never_rejects:
  "getCurrentUser env w \<noteq> (Rejects e, w')"
  by (auto simp: getCurrentUser_def try_catch_def ret_def split: prod.splits outcome.splits)



section \<open>Properties of signIn and getCurrentUser\<close>

text \<open>One failed attempt of the Profile lookup: the error is kept and the loop waits.\<close>

lemma profile_lookup_attempt_fails:
  assumes "attempt_fails r"
  shows "try_catch
          (await (request c r)
             (\<lambda>(data, error).
                if error = None \<and> data \<noteq> None then ret (Break data)
                else await (sleep 2000) (\<lambda>_. ret (Continue (map_option Sdk_error error)))))
          (\<lambda>e. await (sleep 2000) (\<lambda>_. ret (Continue (Some e)))) w =
         (Resolves (Continue (reported_error r)), w\<lparr>effects := effects w @ [c, SetTimeout 2000]\<rparr>)"
  using assms by (cases r rule: attempt_fails.cases) (auto simp: prog_defs)

lemma profile_lookup_loop_all_fail:
  assumes "n \<le> 5"
    and "\<forall>j. 5 - n \<le> j \<and> j < 5 \<longrightarrow> attempt_fails (on_users_select_profile_by_id env j)"
  shows "profile_lookup_loop env uid n ue w =
           (Resolves (None, if n = 0 then ue else reported_error (on_users_select_profile_by_id env 4)),
            w\<lparr>effects := effects w
                 @ concat (replicate n [Users_select_profile_by_id uid, SetTimeout 2000])\<rparr>)"
  using assms
proof (induction n arbitrary: ue w)
  case 0
  then show ?case by (simp add: ret_def)
next
  case (Suc n)
  from Suc.prems have fails: "attempt_fails (on_users_select_profile_by_id env (4 - n))"
    by simp
  have idx: "5 - Suc n = 4 - n" by simp
  from Suc.prems have n: "n \<le> 5"
    and rest: "\<forall>j. 5 - n \<le> j \<and> j < 5 \<longrightarrow> attempt_fails (on_users_select_profile_by_id env j)"
    by auto
  have last: "n = 0 \<Longrightarrow> 4 - n = 4" by simp
  show ?case
    apply (subst profile_lookup_loop.simps)
    apply (subst await_def)
    apply (simp only: idx profile_lookup_attempt_fails[OF fails])
    apply (simp add: Suc.IH[OF n rest])
    done
qed

lemma profile_lookup_loop_found:
  assumes "n \<le> 5" and "5 - n \<le> k" and "k < 5"
    and "\<forall>j. 5 - n \<le> j \<and> j < k \<longrightarrow> attempt_fails (on_users_select_profile_by_id env j)"
    and "on_users_select_profile_by_id env k = Returns (Some row, None)"
  shows "\<exists>ue'. profile_lookup_loop env uid n ue w =
           (Resolves (Some row, ue'),
            w\<lparr>effects := effects w
                 @ concat (replicate (k - (5 - n)) [Users_select_profile_by_id uid, SetTimeout 2000])
                 @ [Users_select_profile_by_id uid]\<rparr>)"
  using assms
proof (induction n arbitrary: ue w)
  case 0
  then show ?case by simp
next
  case (Suc n)
  have idx: "5 - Suc n = 4 - n" by simp
  show ?case
  proof (cases "k = 4 - n")
    case True
    with Suc.prems(5) show ?thesis
      by (simp add: prog_defs)
  next
    case False
    with Suc.prems have fails: "attempt_fails (on_users_select_profile_by_id env (4 - n))"
      and n: "n \<le> 5" and k: "5 - n \<le> k"
      and rest: "\<forall>j. 5 - n \<le> j \<and> j < k \<longrightarrow> attempt_fails (on_users_select_profile_by_id env j)"
      by auto
    from False Suc.prems have len: "k - (4 - n) = Suc (k - (5 - n))" by auto
    from Suc.IH[OF n k Suc.prems(3) rest Suc.prems(5)]
    obtain ue' where ih:
      "profile_lookup_loop env uid n (reported_error (on_users_select_profile_by_id env (4 - n)))
         (w\<lparr>effects := effects w @ [Users_select_profile_by_id uid, SetTimeout 2000]\<rparr>) =
         (Resolves (Some row, ue'),
          (w\<lparr>effects := effects w @ [Users_select_profile_by_id uid, SetTimeout 2000]\<rparr>)
            \<lparr>effects := effects (w\<lparr>effects := effects w @ [Users_select_profile_by_id uid, SetTimeout 2000]\<rparr>)
                 @ concat (replicate (k - (5 - n)) [Users_select_profile_by_id uid, SetTimeout 2000])
                 @ [Users_select_profile_by_id uid]\<rparr>)"
      by blast
    show ?thesis
      apply (subst profile_lookup_loop.simps)
      apply (subst await_def)
      apply (simp only: idx profile_lookup_attempt_fails[OF fails])
      apply (simp add: ih len)
      done
  qed
qed

text \<open>
  Claim C2, as amended.  When the Profile lookup fails on each of the five
  attempts:
  \<^item> \<open>signIn\<close> (after the password sign-in made \<open>u\<close> the current
    session) issues a sign-out as its last effect and returns a failure with
    \<open>user = null\<close>, carrying the error of the fifth attempt, or
    \<open>Error('Failed to load user data')\<close> when that attempt reported none,
    or what the sign-out threw; there is no current session afterwards when
    the sign-out resolves without error, and the session of \<open>u\<close> stays
    when it does not;
  \<^item> \<open>getCurrentUser\<close> returns a failure with \<open>user = null\<close>, carrying
    the error of the fifth attempt or \<open>Error('User profile not found')\<close>,
    and issues no sign-out: its effects are the \<open>getUser\<close> request and the
    five lookups, and the session pointer is as before.
\<close>

theorem session_resolution_profile_never_found:
  assumes "\<forall>j<5. attempt_fails (on_users_select_profile_by_id env j)"
  shows "(on_auth_signInWithPassword env = Returns (Some u, None) \<longrightarrow>
            signIn env email password w =
              (Resolves \<lparr>user = None,
                 error = Some (case on_auth_signOut env of
                                 Throws f \<Rightarrow> Sdk_error f
                               | Returns _ \<Rightarrow>
                                   (case reported_error (on_users_select_profile_by_id env 4) of
                                      Some e \<Rightarrow> e
                                    | None \<Rightarrow> Error ''Failed to load user data''))\<rparr>,
               w\<lparr>effects := effects w @ [Auth_signInWithPassword email password]
                      @ lookups (user_id u) 5 @ [Auth_signOut],
                 session := (case on_auth_signOut env of
                               Returns None \<Rightarrow> None
                             | _ \<Rightarrow> Some u)\<rparr>)) \<and>
         (on_auth_getUser env = Returns (Some u, ge) \<longrightarrow>
            getCurrentUser env w =
              (Resolves \<lparr>user = None,
                 error = Some (case reported_error (on_users_select_profile_by_id env 4) of
                                 Some e \<Rightarrow> e
                               | None \<Rightarrow> Error ''User profile not found'')\<rparr>,
               w\<lparr>effects := effects w @ [Auth_getUser] @ lookups (user_id u) 5\<rparr>))"
proof -
  have fails: "\<forall>j. 5 - 5 \<le> j \<and> j < 5 \<longrightarrow> attempt_fails (on_users_select_profile_by_id env j)"
    using assms by simp
  note loop = profile_lookup_loop_all_fail[OF order_refl fails]
  show ?thesis
  proof (intro conjI impI)
    assume "on_auth_signInWithPassword env = Returns (Some u, None)"
    then show "signIn env email password w =
              (Resolves \<lparr>user = None,
                 error = Some (case on_auth_signOut env of
                                 Throws f \<Rightarrow> Sdk_error f
                               | Returns _ \<Rightarrow>
                                   (case reported_error (on_users_select_profile_by_id env 4) of
                                      Some e \<Rightarrow> e
                                    | None \<Rightarrow> Error ''Failed to load user data''))\<rparr>,
               w\<lparr>effects := effects w @ [Auth_signInWithPassword email password]
                      @ lookups (user_id u) 5 @ [Auth_signOut],
                 session := (case on_auth_signOut env of
                               Returns None \<Rightarrow> None
                             | _ \<Rightarrow> Some u)\<rparr>)"
      by (cases "on_auth_signOut env")
         (auto simp: signIn_def auth_signInWithPassword_def auth_signOut_def prog_defs loop
               split: option.splits)
  next
    assume "on_auth_getUser env = Returns (Some u, ge)"
    then show "getCurrentUser env w =
              (Resolves \<lparr>user = None,
                 error = Some (case reported_error (on_users_select_profile_by_id env 4) of
                                 Some e \<Rightarrow> e
                               | None \<Rightarrow> Error ''User profile not found'')\<rparr>,
               w\<lparr>effects := effects w @ [Auth_getUser] @ lookups (user_id u) 5\<rparr>)"
      by (auto simp: getCurrentUser_def prog_defs loop split: option.splits)
  qed
qed

theorem session_resolution_profile_never_found_witness:
  "attempt_fails (on_users_select_profile_by_id platform_no_profile 0) \<and>
   attempt_fails (on_users_select_profile_by_id platform_no_profile 4) \<and>
   on_auth_signInWithPassword platform_no_profile = Returns (Some alice, None) \<and>
   on_auth_getUser platform_no_profile = Returns (Some alice, None) \<and>
   signIn platform_no_profile ''a@x.com'' ''secret1'' blank =
     (Resolves \<lparr>user = None, error = Some (Error ''Failed to load user data'')\<rparr>,
      blank\<lparr>effects := [Auth_signInWithPassword ''a@x.com'' ''secret1'',
          Users_select_profile_by_id ''u1'', SetTimeout 2000,
          Users_select_profile_by_id ''u1'', SetTimeout 2000,
          Users_select_profile_by_id ''u1'', SetTimeout 2000,
          Users_select_profile_by_id ''u1'', SetTimeout 2000,
          Users_select_profile_by_id ''u1'', SetTimeout 2000,
          Auth_signOut],
        session := None\<rparr>) \<and>
   getCurrentUser platform_no_profile signed_in =
     (Resolves \<lparr>user = None, error = Some (Error ''User profile not found'')\<rparr>,
      signed_in\<lparr>effects := [Auth_getUser,
          Users_select_profile_by_id ''u1'', SetTimeout 2000,
          Users_select_profile_by_id ''u1'', SetTimeout 2000,
          Users_select_profile_by_id ''u1'', SetTimeout 2000,
          Users_select_profile_by_id ''u1'', SetTimeout 2000,
          Users_select_profile_by_id ''u1'', SetTimeout 2000]\<rparr>)"
  using session_resolution_profile_never_found
          [of platform_no_profile alice "''a@x.com''" "''secret1''" blank None]
        session_resolution_profile_never_found
          [of platform_no_profile alice "''a@x.com''" "''secret1''" signed_in None]
  by (simp add: platform_no_profile_def platform_def blank_def signed_in_def alice_def
        eval_nat_numeral)

text \<open>
  The claim as stated fails for session restore: with a current session and
  five lookups that find nothing, \<open>getCurrentUser\<close> fails without a
  sign-out, and the session is still there.
\<close>

theorem getCurrentUser_keeps_session_counterexample:
  "on_auth_getUser platform_no_profile = Returns (Some alice, None) \<and>
   on_users_select_profile_by_id platform_no_profile = (\<lambda>n. Returns (None, None)) \<and>
   session signed_in = Some alice \<and>
   fst (getCurrentUser platform_no_profile signed_in) =
     Resolves \<lparr>user = None, error = Some (Error ''User profile not found'')\<rparr> \<and>
   Auth_signOut \<notin> set (effects (snd (getCurrentUser platform_no_profile signed_in))) \<and>
   session (snd (getCurrentUser platform_no_profile signed_in)) = Some alice"
  by (simp add: platform_no_profile_def platform_def blank_def signed_in_def alice_def
        getCurrentUser_def prog_defs eval_nat_numeral)

text \<open>
  Claim C3, as amended.  When the lookup finds a Profile of role
  \<open>doctor\<close> (on attempt \<open>k\<close>, counted from 0, after \<open>k\<close> failed ones),
  both flows request \<open>create_doctor_profile\<close> right after the lookup that
  succeeded, with no test in between.  When that procedure reports an error:
  \<^item> \<open>signIn\<close> issues a sign-out and returns a failure with
    \<open>user = null\<close> and \<open>Error('Failed to verify doctor profile')\<close> (or
    what the sign-out threw), the session being gone when the sign-out
    resolves without error;
  \<^item> \<open>getCurrentUser\<close> returns the failure
    \<open>Error('Failed to verify doctor profile')\<close> with \<open>user = null\<close> and
    issues no sign-out: the procedure call is its last effect and the session
    pointer is as before.
\<close>

theorem doctor_bootstrap:
  assumes "k < 5"
    and "\<forall>j<k. attempt_fails (on_users_select_profile_by_id env j)"
    and "on_users_select_profile_by_id env k = Returns (Some row, None)"
    and "row_role row = ''doctor''"
  shows "(on_auth_signInWithPassword env = Returns (Some u, None) \<longrightarrow>
           (\<exists>rest. effects (snd (signIn env email password w)) =
               effects w @ [Auth_signInWithPassword email password] @ lookups (user_id u) k
                 @ [Users_select_profile_by_id (user_id u), Rpc_create_doctor_profile] @ rest) \<and>
           (\<forall>de. on_rpc_create_doctor_profile env = Returns (Some de) \<longrightarrow>
              signIn env email password w =
                (Resolves \<lparr>user = None,
                   error = Some (case on_auth_signOut env of
                                   Throws f \<Rightarrow> Sdk_error f
                                 | Returns _ \<Rightarrow> Error ''Failed to verify doctor profile'')\<rparr>,
                 w\<lparr>effects := effects w @ [Auth_signInWithPassword email password]
                        @ lookups (user_id u) k
                        @ [Users_select_profile_by_id (user_id u), Rpc_create_doctor_profile,
                           Auth_signOut],
                   session := (case on_auth_signOut env of
                                 Returns None \<Rightarrow> None
                               | _ \<Rightarrow> Some u)\<rparr>))) \<and>
         (on_auth_getUser env = Returns (Some u, ge) \<longrightarrow>
           (\<exists>rest. effects (snd (getCurrentUser env w)) =
               effects w @ [Auth_getUser] @ lookups (user_id u) k
                 @ [Users_select_profile_by_id (user_id u), Rpc_create_doctor_profile] @ rest) \<and>
           (\<forall>de. on_rpc_create_doctor_profile env = Returns (Some de) \<longrightarrow>
              getCurrentUser env w =
                (Resolves \<lparr>user = None,
                   error = Some (Error ''Failed to verify doctor profile'')\<rparr>,
                 w\<lparr>effects := effects w @ [Auth_getUser] @ lookups (user_id u) k
                        @ [Users_select_profile_by_id (user_id u), Rpc_create_doctor_profile]\<rparr>)))"
proof -
  have fails: "\<forall>j. 5 - 5 \<le> j \<and> j < k \<longrightarrow> attempt_fails (on_users_select_profile_by_id env j)"
    using assms(2) by simp
  have found: "\<exists>ue'. profile_lookup_loop env uid 5 ue w0 =
           (Resolves (Some row, ue'),
            w0\<lparr>effects := effects w0 @ lookups uid k @ [Users_select_profile_by_id uid]\<rparr>)"
    for uid ue w0
    using profile_lookup_loop_found[OF order_refl _ assms(1) fails assms(3), of uid ue w0]
    by simp
  show ?thesis
  proof (intro conjI impI allI)
    assume si: "on_auth_signInWithPassword env = Returns (Some u, None)"
    let ?w1 = "(emit (Auth_signInWithPassword email password) w)\<lparr>session := Some u\<rparr>"
    from found[of "user_id u" None ?w1] obtain ue' where
      loop: "profile_lookup_loop env (user_id u) 5 None ?w1 =
           (Resolves (Some row, ue'),
            ?w1\<lparr>effects := effects ?w1 @ lookups (user_id u) k @ [Users_select_profile_by_id (user_id u)]\<rparr>)"
      by blast
    show "\<exists>rest. effects (snd (signIn env email password w)) =
               effects w @ [Auth_signInWithPassword email password] @ lookups (user_id u) k
                 @ [Users_select_profile_by_id (user_id u), Rpc_create_doctor_profile] @ rest"
      using si loop assms(4)
      by (cases "on_rpc_create_doctor_profile env"; cases "on_auth_signOut env")
         (auto simp: signIn_def auth_signInWithPassword_def auth_signOut_def prog_defs
               split: option.splits)
    fix de
    assume "on_rpc_create_doctor_profile env = Returns (Some de)"
    then show "signIn env email password w =
                (Resolves \<lparr>user = None,
                   error = Some (case on_auth_signOut env of
                                   Throws f \<Rightarrow> Sdk_error f
                                 | Returns _ \<Rightarrow> Error ''Failed to verify doctor profile'')\<rparr>,
                 w\<lparr>effects := effects w @ [Auth_signInWithPassword email password]
                        @ lookups (user_id u) k
                        @ [Users_select_profile_by_id (user_id u), Rpc_create_doctor_profile,
                           Auth_signOut],
                   session := (case on_auth_signOut env of
                                 Returns None \<Rightarrow> None
                               | _ \<Rightarrow> Some u)\<rparr>)"
      using si loop assms(4)
      by (cases "on_auth_signOut env")
         (auto simp: signIn_def auth_signInWithPassword_def auth_signOut_def prog_defs
               split: option.splits)
  next
    assume gu: "on_auth_getUser env = Returns (Some u, ge)"
    let ?w1 = "emit Auth_getUser w"
    from found[of "user_id u" None ?w1] obtain ue' where
      loop: "profile_lookup_loop env (user_id u) 5 None ?w1 =
           (Resolves (Some row, ue'),
            ?w1\<lparr>effects := effects ?w1 @ lookups (user_id u) k @ [Users_select_profile_by_id (user_id u)]\<rparr>)"
      by blast
    show "\<exists>rest. effects (snd (getCurrentUser env w)) =
               effects w @ [Auth_getUser] @ lookups (user_id u) k
                 @ [Users_select_profile_by_id (user_id u), Rpc_create_doctor_profile] @ rest"
      using gu loop assms(4)
      by (cases "on_rpc_create_doctor_profile env")
         (auto simp: getCurrentUser_def prog_defs split: option.splits)
    fix de
    assume "on_rpc_create_doctor_profile env = Returns (Some de)"
    then show "getCurrentUser env w =
                (Resolves \<lparr>user = None,
                   error = Some (Error ''Failed to verify doctor profile'')\<rparr>,
                 w\<lparr>effects := effects w @ [Auth_getUser] @ lookups (user_id u) k
                        @ [Users_select_profile_by_id (user_id u), Rpc_create_doctor_profile]\<rparr>)"
      using gu loop assms(4)
      by (auto simp: getCurrentUser_def prog_defs split: option.splits)
  qed
qed

theorem doctor_bootstrap_witness:
  "(1::nat) < 5 \<and>
   attempt_fails (on_users_select_profile_by_id platform_doctor 0) \<and>
   on_users_select_profile_by_id platform_doctor 1 =
     Returns (Some (Profile_row ''alice'' ''doctor''), None) \<and>
   row_role (Profile_row ''alice'' ''doctor'') = ''doctor'' \<and>
   on_auth_signInWithPassword platform_doctor = Returns (Some alice, None) \<and>
   on_auth_getUser platform_doctor = Returns (Some alice, None) \<and>
   on_rpc_create_doctor_profile platform_doctor = Returns (Some ''permission denied'') \<and>
   signIn platform_doctor ''a@x.com'' ''secret1'' blank =
     (Resolves \<lparr>user = None, error = Some (Error ''Failed to verify doctor profile'')\<rparr>,
      blank\<lparr>effects := [Auth_signInWithPassword ''a@x.com'' ''secret1'',
          Users_select_profile_by_id ''u1'', SetTimeout 2000,
          Users_select_profile_by_id ''u1'', Rpc_create_doctor_profile, Auth_signOut],
        session := None\<rparr>) \<and>
   getCurrentUser platform_doctor signed_in =
     (Resolves \<lparr>user = None, error = Some (Error ''Failed to verify doctor profile'')\<rparr>,
      signed_in\<lparr>effects := [Auth_getUser,
          Users_select_profile_by_id ''u1'', SetTimeout 2000,
          Users_select_profile_by_id ''u1'', Rpc_create_doctor_profile]\<rparr>)"
  using doctor_bootstrap
          [of 1 platform_doctor "Profile_row ''alice'' ''doctor''" alice
              "''a@x.com''" "''secret1''" blank None]
        doctor_bootstrap
          [of 1 platform_doctor "Profile_row ''alice'' ''doctor''" alice
              "''a@x.com''" "''secret1''" signed_in None]
  by (simp add: platform_doctor_def platform_def blank_def signed_in_def alice_def)

text \<open>
  The claim as stated fails for session restore: the Profile is a doctor's,
  the procedure reports an error, and \<open>getCurrentUser\<close> fails without a
  sign-out.
\<close>

theorem getCurrentUser_doctor_error_no_signOut_counterexample:
  "on_auth_getUser platform_doctor = Returns (Some alice, None) \<and>
   on_users_select_profile_by_id platform_doctor 1 =
     Returns (Some (Profile_row ''alice'' ''doctor''), None) \<and>
   on_rpc_create_doctor_profile platform_doctor = Returns (Some ''permission denied'') \<and>
   session signed_in = Some alice \<and>
   fst (getCurrentUser platform_doctor signed_in) =
     Resolves \<lparr>user = None, error = Some (Error ''Failed to verify doctor profile'')\<rparr> \<and>
   Rpc_create_doctor_profile \<in> set (effects (snd (getCurrentUser platform_doctor signed_in))) \<and>
   Auth_signOut \<notin> set (effects (snd (getCurrentUser platform_doctor signed_in))) \<and>
   session (snd (getCurrentUser platform_doctor signed_in)) = Some alice"
  by (simp add: platform_doctor_def platform_def blank_def signed_in_def alice_def
        getCurrentUser_def prog_defs eval_nat_numeral)

text \<open>
  Claim C10, as amended.  When the reply of \<open>getUser\<close> carries no user,
  \<open>getCurrentUser\<close> returns \<open>{ user: null, error: null }\<close> after that one
  request, whatever the \<open>error\<close> field of the reply holds: the field is
  never read.  So a session store that reports no session and a \<open>getUser\<close>
  that fails with an error in its reply give the same result.  In every other
  case (the reply carries a user, or the request throws) the result is
  either a user with \<open>error = null\<close> or \<open>user = null\<close> with an error.
\<close>

theorem getCurrentUser_no_session:
  "(on_auth_getUser env = Returns (None, ge) \<longrightarrow>
      getCurrentUser env w =
        (Resolves \<lparr>user = None, error = None\<rparr>, w\<lparr>effects := effects w @ [Auth_getUser]\<rparr>)) \<and>
   ((\<forall>ge'. on_auth_getUser env \<noteq> Returns (None, ge')) \<longrightarrow>
      (\<exists>r w'. getCurrentUser env w = (Resolves r, w') \<and>
         (user r \<noteq> None \<and> error r = None \<or> user r = None \<and> error r \<noteq> None)))"
proof (intro conjI impI)
  assume "on_auth_getUser env = Returns (None, ge)"
  then show "getCurrentUser env w =
        (Resolves \<lparr>user = None, error = None\<rparr>, w\<lparr>effects := effects w @ [Auth_getUser]\<rparr>)"
    by (simp add: getCurrentUser_def prog_defs)
next
  assume some: "\<forall>ge'. on_auth_getUser env \<noteq> Returns (None, ge')"
  have shape: "user r \<noteq> None \<and> error r = None \<or> user r = None \<and> error r \<noteq> None"
    if "getCurrentUser env w = (Resolves r, w')" for r w'
    using that some
    by (cases "on_auth_getUser env")
       (auto simp: getCurrentUser_def prog_defs
             split: prod.splits outcome.splits option.splits if_splits)
  show "\<exists>r w'. getCurrentUser env w = (Resolves r, w') \<and>
         (user r \<noteq> None \<and> error r = None \<or> user r = None \<and> error r \<noteq> None)"
    by (rule resolves_or_rejects[of "getCurrentUser env" w])
       (auto simp: getCurrentUser_never_rejects dest: shape)
qed

theorem getCurrentUser_no_session_witness:
  "on_auth_getUser (platform\<lparr>on_auth_getUser := Returns (None, None)\<rparr>) = Returns (None, None) \<and>
   getCurrentUser (platform\<lparr>on_auth_getUser := Returns (None, None)\<rparr>) blank =
     (Resolves \<lparr>user = None, error = None\<rparr>, blank\<lparr>effects := [Auth_getUser]\<rparr>) \<and>
   on_auth_getUser platform_no_profile = Returns (Some alice, None) \<and>
   (\<exists>r w'. getCurrentUser platform_no_profile signed_in = (Resolves r, w') \<and>
      (user r \<noteq> None \<and> error r = None \<or> user r = None \<and> error r \<noteq> None))"
  using getCurrentUser_no_session[of "platform\<lparr>on_auth_getUser := Returns (None, None)\<rparr>" None blank]
        getCurrentUser_no_session[of platform_no_profile None signed_in]
  by (simp add: platform_no_profile_def platform_def blank_def)

text \<open>
  The claim as stated fails: a \<open>getUser\<close> that fails with an error in its
  reply, while \<open>alice\<close> holds the session, is a failure case, and
  \<open>getCurrentUser\<close> answers it with \<open>{ user: null, error: null }\<close>, the
  answer it gives when there is no session.
\<close>

theorem getCurrentUser_failed_getUser_counterexample:
  "on_auth_getUser platform_getUser_fails = Returns (None, Some ''network error'') \<and>
   session signed_in = Some alice \<and>
   getCurrentUser platform_getUser_fails signed_in =
     (Resolves \<lparr>user = None, error = None\<rparr>, signed_in\<lparr>effects := [Auth_getUser]\<rparr>)"
  by (simp add: platform_getUser_fails_def platform_def signed_in_def blank_def
        getCurrentUser_def prog_defs)

section \<open>Properties of the route guards\<close>

text \<open>
  One failed attempt of \<open>getUserDataWithRetry\<close> that is not the last: the
  loop waits and goes on.  A lookup that succeeds ends the loop with the role.
\<close>

lemma role_lookup_attempt_fails:
  fixes i m :: nat
  assumes "attempt_fails r" and "i < m - 1"
  shows "try_catch
          (await (request c r)
             (\<lambda>(data, error).
                if error = None \<and> data \<noteq> None then ret (Break (data, None))
                else if i < m - 1
                  then await (sleep d) (\<lambda>_. ret (Continue ()))
                  else ret (Continue ())))
          (\<lambda>e. if i = m - 1
                then ret (Break (None, Some e))
                else await (sleep d) (\<lambda>_. ret (Continue ()))) w =
         (Resolves (Continue ()), w\<lparr>effects := effects w @ [c, SetTimeout d]\<rparr>)"
proof -
  from assms(2) have ne: "i \<noteq> m - 1" by simp
  show ?thesis
    using assms ne by (cases r rule: attempt_fails.cases) (auto simp: prog_defs)
qed

lemma getUserDataWithRetry_loop_found:
  assumes "left \<le> m" and "m - left \<le> k" and "k < m"
    and "\<forall>j. m - left \<le> j \<and> j < k \<longrightarrow> attempt_fails (on_users_select_role_by_id env j)"
    and "on_users_select_role_by_id env k = Returns (Some r, None)"
  shows "getUserDataWithRetry_loop env uid m d left w =
           (Resolves (Some r, None),
            w\<lparr>effects := effects w
                 @ concat (replicate (k - (m - left)) [Users_select_role_by_id uid, SetTimeout d])
                 @ [Users_select_role_by_id uid]\<rparr>)"
  using assms
proof (induction left arbitrary: w)
  case 0
  then show ?case by simp
next
  case (Suc left)
  show ?case
  proof (cases "k = m - Suc left")
    case True
    with Suc.prems(5) show ?thesis
      by (simp add: prog_defs)
  next
    case False
    with Suc.prems have fails: "attempt_fails (on_users_select_role_by_id env (m - Suc left))"
      and lt: "m - Suc left < m - 1"
      and l: "left \<le> m" and k: "m - left \<le> k"
      and rest: "\<forall>j. m - left \<le> j \<and> j < k \<longrightarrow> attempt_fails (on_users_select_role_by_id env j)"
      by auto
    from False Suc.prems have len: "k - (m - Suc left) = Suc (k - (m - left))" by auto
    show ?thesis
      apply (subst getUserDataWithRetry_loop.simps)
      apply (subst await_def)
      apply (simp only: role_lookup_attempt_fails[OF fails lt])
      apply (simp add: Suc.IH[OF l k Suc.prems(3) rest Suc.prems(5)] len)
      done
  qed
qed

lemma getUserDataWithRetry_found:
  assumes "k < 5" and "\<forall>j<k. attempt_fails (on_users_select_role_by_id env j)"
    and "on_users_select_role_by_id env k = Returns (Some r, None)"
  shows "getUserDataWithRetry env uid 5 1000 w =
           (Resolves (Some r, None),
            w\<lparr>effects := effects w
                 @ concat (replicate k [Users_select_role_by_id uid, SetTimeout 1000])
                 @ [Users_select_role_by_id uid]\<rparr>)"
proof -
  have "\<forall>j. 5 - 5 \<le> j \<and> j < k \<longrightarrow> attempt_fails (on_users_select_role_by_id env j)"
    using assms(2) by simp
  from getUserDataWithRetry_loop_found[OF order_refl _ assms(1) this assms(3), of uid 1000 w]
  show ?thesis by (simp add: getUserDataWithRetry_def)
qed



text \<open>Replaying a log: effects that set no cell change nothing.\<close>

lemma set_cell_quiet: "quiet e \<Longrightarrow> set_cell e c = c"
  by (cases e; cases c) simp_all

lemma states_head: "c \<in> set (states c es)"
  by (cases es) simp_all

lemma states_quiet_append:
  "list_all quiet xs \<Longrightarrow> set (states c (xs @ ys)) = set (states c ys)"
proof (induction xs)
  case Nil
  then show ?case by simp
next
  case (Cons x xs)
  then have "quiet x" and ih: "set (states c (xs @ ys)) = set (states c ys)" by simp_all
  then show ?case
    by (simp add: set_cell_quiet insert_absorb states_head)
qed

lemma pending_on_quiet_append:
  "list_all quiet xs \<Longrightarrow> q \<notin> set xs \<Longrightarrow> pending_on q c (xs @ ys) = pending_on q c ys"
  by (induction xs) (auto simp: set_cell_quiet)

lemma settled_option_cases:
  fixes y :: "'a option settled"
  obtains (Throws) f where "y = Throws f"
    | (Returns_None) "y = Returns None"
    | (Returns_Some) x where "y = Returns (Some x)"
  by (cases y) (auto split: option.splits)

text \<open>
  The run of \<open>checkAuth\<close> for a resolved role outside the allow-list:
  result, log, session and cells.
\<close>

lemma ProtectedRoute_denied_run:
  assumes "on_auth_getSession env = Returns (Some u)"
    and "k < 5"
    and "\<forall>j<k. attempt_fails (on_users_select_role_by_id env j)"
    and "on_users_select_role_by_id env k = Returns (Some r, None)"
    and "r = ''doctor'' \<longrightarrow> doctor_record_ensured env"
    and "r \<notin> set allowedRoles"
  shows "ProtectedRoute_checkAuth env allowedRoles w =
           (Resolves (),
            w\<lparr>effects := effects w
                 @ ([Auth_getSession]
                    @ concat (replicate k [Users_select_role_by_id (user_id u), SetTimeout 1000])
                    @ [Users_select_role_by_id (user_id u)]
                    @ (if r = ''doctor''
                       then Doctors_select_id_by_user_id (user_id u)
                            # (case on_doctors_select_id_by_user_id env of
                                 Returns (Some d, None) \<Rightarrow> []
                               | _ \<Rightarrow> [Rpc_create_doctor_profile])
                       else []))
                 @ ([SetIsAuthenticated True, SetUserRole (Some r),
                     Toast_error (''Access denied. Your role ('' @ r @
                       '') does not have permission to access this area.''),
                     Auth_signOut, SetIsAuthenticated False, SetUserRole None]
                    @ (case on_auth_signOut env of
                         Throws f \<Rightarrow> [Toast_error ''Authentication error. Please try logging in again.'']
                       | Returns _ \<Rightarrow> [])),
              session := (case on_auth_signOut env of
                            Returns None \<Rightarrow> None
                          | _ \<Rightarrow> session w),
              isAuthenticated := Some False, userRole := None\<rparr>)"
proof (cases "r = ''doctor''")
  case False
  with assms(1,6) show ?thesis
    by (cases "on_auth_signOut env" rule: settled_option_cases)
       (simp_all add: ProtectedRoute_checkAuth_def prog_defs guard_defs
          getUserDataWithRetry_found[OF assms(2-4)])
next
  case True
  with assms(5) have ensured: "doctor_record_ensured env" by simp
  show ?thesis
  proof (cases "on_doctors_select_id_by_user_id env")
    case (Throws f)
    with ensured show ?thesis by (simp add: doctor_record_ensured_def)
  next
    case (Returns reply)
    obtain dd de where reply: "reply = (dd, de)" by (cases reply)
    show ?thesis
    proof (cases "dd \<noteq> None \<and> de = None")
      case found: True
      then obtain d where "dd = Some d" "de = None" by auto
      with True Returns reply assms(1,6) show ?thesis
        by (cases "on_auth_signOut env" rule: settled_option_cases)
           (simp_all add: ProtectedRoute_checkAuth_def prog_defs guard_defs
              getUserDataWithRetry_found[OF assms(2-4)])
    next
      case created: False
      from created ensured Returns reply have rpc: "on_rpc_create_doctor_profile env = Returns None"
        by (auto simp: doctor_record_ensured_def split: option.splits)
      from created consider (err) x where "de = Some x" | (none) "de = None" "dd = None"
        by (cases de; cases dd) auto
      then show ?thesis
      proof cases
        case err
        with True Returns reply assms(1,6) rpc show ?thesis
          by (cases "on_auth_signOut env" rule: settled_option_cases; cases dd)
             (simp_all add: ProtectedRoute_checkAuth_def prog_defs guard_defs
                getUserDataWithRetry_found[OF assms(2-4)])
      next
        case none
        with True Returns reply assms(1,6) rpc show ?thesis
          by (cases "on_auth_signOut env" rule: settled_option_cases)
             (simp_all add: ProtectedRoute_checkAuth_def prog_defs guard_defs
                getUserDataWithRetry_found[OF assms(2-4)])
      qed
    qed
  qed
qed

lemma lookups_quiet:
  "list_all quiet (concat (replicate k [Users_select_role_by_id i, SetTimeout d]))"
  by (induction k) simp_all

lemma lookups_no_signOut:
  "Auth_signOut \<notin> set (concat (replicate k [Users_select_role_by_id i, SetTimeout d]))"
  by (induction k) simp_all

text \<open>
  Claim C6.  When \<open>ProtectedRoute\<close> finds an active session, the role
  resolves (on attempt \<open>k\<close>, counted from 0; for a doctor the doctor check
  passes too) and the role is not in the allow-list, then \<open>checkAuth\<close>
  \<^item> shows the access-denied toast that names the resolved role;
  \<^item> issues one sign-out, and while that sign-out is awaited the guard
    renders the redirect to \<open>/login\<close>;
  \<^item> never holds cells for which the guard renders its children, from
    mounting to the end;
  \<^item> ends with \<open>isAuthenticated = false\<close> and \<open>userRole = null\<close>, and
    with no current session when the sign-out resolves without error.
  The example is the Principal of role \<open>registration\<close> (and one of role
  \<open>doctor\<close>) on the route that allows \<open>admin\<close> only.
\<close>

theorem ProtectedRoute_denies_role_outside_allow_list:
  assumes "on_auth_getSession env = Returns (Some u)"
    and "k < 5"
    and "\<forall>j<k. attempt_fails (on_users_select_role_by_id env j)"
    and "on_users_select_role_by_id env k = Returns (Some r, None)"
    and "r = ''doctor'' \<longrightarrow> doctor_record_ensured env"
    and "r \<notin> set allowedRoles"
  shows "\<exists>w' log. ProtectedRoute_checkAuth env allowedRoles w = (Resolves (), w') \<and>
           effects w' = effects w @ log \<and>
           Toast_error (''Access denied. Your role ('' @ r @
                       '') does not have permission to access this area.'') \<in> set log \<and>
           map (\<lambda>(a, x). ProtectedRoute_render allowedRoles a x)
               (pending_on Auth_signOut (None, None) log) = [Navigate ''/login''] \<and>
           Children \<notin> set (map (\<lambda>(a, x). ProtectedRoute_render allowedRoles a x)
                                 (states (None, None) log)) \<and>
           isAuthenticated w' = Some False \<and> userRole w' = None \<and>
           session w' = (case on_auth_signOut env of Returns None \<Rightarrow> None | _ \<Rightarrow> session w)"
proof -
  define A where "A = [Auth_getSession]
                    @ concat (replicate k [Users_select_role_by_id (user_id u), SetTimeout 1000])
                    @ [Users_select_role_by_id (user_id u)]
                    @ (if r = ''doctor''
                       then Doctors_select_id_by_user_id (user_id u)
                            # (case on_doctors_select_id_by_user_id env of
                                 Returns (Some d, None) \<Rightarrow> []
                               | _ \<Rightarrow> [Rpc_create_doctor_profile])
                       else [])"
  define B where "B = [SetIsAuthenticated True, SetUserRole (Some r),
                     Toast_error (''Access denied. Your role ('' @ r @
                       '') does not have permission to access this area.''),
                     Auth_signOut, SetIsAuthenticated False, SetUserRole None]
                    @ (case on_auth_signOut env of
                         Throws f \<Rightarrow> [Toast_error ''Authentication error. Please try logging in again.'']
                       | Returns _ \<Rightarrow> [])"
  have quietA: "list_all quiet A"
    unfolding A_def
    by (auto simp: lookups_quiet split: settled.splits option.splits prod.splits)
  have nosoA: "Auth_signOut \<notin> set A"
    unfolding A_def using lookups_no_signOut[of k "user_id u" 1000]
    by (auto split: settled.splits option.splits prod.splits)
  have run: "ProtectedRoute_checkAuth env allowedRoles w =
           (Resolves (),
            w\<lparr>effects := effects w @ A @ B,
              session := (case on_auth_signOut env of
                            Returns None \<Rightarrow> None
                          | _ \<Rightarrow> session w),
              isAuthenticated := Some False, userRole := None\<rparr>)"
    unfolding A_def B_def by (rule ProtectedRoute_denied_run[OF assms])
  have toast: "Toast_error (''Access denied. Your role ('' @ r @
                       '') does not have permission to access this area.'') \<in> set (A @ B)"
    by (simp add: B_def)
  have pend: "pending_on Auth_signOut (None, None) (A @ B) = [(Some True, Some r)]"
    unfolding pending_on_quiet_append[OF quietA nosoA]
    by (cases "on_auth_signOut env") (simp_all add: B_def)
  have views: "Children \<notin> set (map (\<lambda>(a, x). ProtectedRoute_render allowedRoles a x)
                                 (states (None, None) (A @ B)))"
    using assms(6)
    by (cases "on_auth_signOut env") (auto simp: states_quiet_append[OF quietA] B_def)
  show ?thesis
    using run toast pend views assms(6) by simp
qed

theorem ProtectedRoute_denies_role_outside_allow_list_witness:
  "on_auth_getSession platform_registration = Returns (Some alice) \<and>
   (0::nat) < 5 \<and>
   on_users_select_role_by_id platform_registration 0 = Returns (Some ''registration'', None) \<and>
   ''registration'' \<notin> set [''admin''] \<and>
   (\<exists>w' log. ProtectedRoute_checkAuth platform_registration [''admin''] signed_in = (Resolves (), w') \<and>
      effects w' = effects signed_in @ log \<and>
      Toast_error ''Access denied. Your role (registration) does not have permission to access this area.''
        \<in> set log \<and>
      map (\<lambda>(a, x). ProtectedRoute_render [''admin''] a x)
          (pending_on Auth_signOut (None, None) log) = [Navigate ''/login''] \<and>
      Children \<notin> set (map (\<lambda>(a, x). ProtectedRoute_render [''admin''] a x)
                            (states (None, None) log)) \<and>
      isAuthenticated w' = Some False \<and> userRole w' = None \<and> session w' = None) \<and>
   on_users_select_role_by_id platform_doctor_role 0 = Returns (Some ''doctor'', None) \<and>
   doctor_record_ensured platform_doctor_role \<and>
   (\<exists>w' log. ProtectedRoute_checkAuth platform_doctor_role [''admin''] signed_in = (Resolves (), w') \<and>
      effects w' = effects signed_in @ log \<and>
      Toast_error ''Access denied. Your role (doctor) does not have permission to access this area.''
        \<in> set log \<and>
      map (\<lambda>(a, x). ProtectedRoute_render [''admin''] a x)
          (pending_on Auth_signOut (None, None) log) = [Navigate ''/login''] \<and>
      Children \<notin> set (map (\<lambda>(a, x). ProtectedRoute_render [''admin''] a x)
                            (states (None, None) log)) \<and>
      isAuthenticated w' = Some False \<and> userRole w' = None \<and> session w' = None)"
  using ProtectedRoute_denies_role_outside_allow_list
          [of platform_registration alice 0 "''registration''" "[''admin'']" signed_in]
        ProtectedRoute_denies_role_outside_allow_list
          [of platform_doctor_role alice 0 "''doctor''" "[''admin'']" signed_in]
  by (simp add: platform_registration_def platform_doctor_role_def platform_def
        doctor_record_ensured_def)

end
